theory Spec2Isabelle
  imports Complex_Main
begin

section \<open>Embedding of \<open>wireframe.py\<close>\<close>

text \<open>
  The module keeps a wireframe as an \<open>N \<times> 4\<close> numpy array of homogeneous points, a Python
  list of edges (2-tuples of node indices) and a Python list of faces (sequences of node
  indices). Methods mutate the object in place; here each method takes the object and
  returns the updated one.

  Conventions of the embedding:
  \<^item> a row of the node array is a 4-tuple, a \<open>4 \<times> 4\<close> matrix is a 4-tuple of rows;
  \<^item> numpy's float64 entries are idealised as exact real numbers, which is what the
    statements about the geometry are about; where the statement is that a stored value
    is exactly some number, the node array is taken over float64 values with rounding,
    infinities and NaN (section on the node array in float64);
  \<^item> node indices are Python integers, hence \<open>int\<close> (negative values included);
  \<^item> an exception raised by numpy is the \<open>Inl\<close> branch of a sum type.
\<close>

type_synonym vec3 = "real \<times> real \<times> real"
type_synonym vec4 = "real \<times> real \<times> real \<times> real"
type_synonym mat4 = "vec4 \<times> vec4 \<times> vec4 \<times> vec4"

datatype error = ValueError

record Wireframe =
  nodes :: "vec4 list"
  edges :: "(int \<times> int) list"
  faces :: "int list list"

text \<open>\<open>Wireframe.__init__\<close>: an empty \<open>0 \<times> 4\<close> array and two empty lists.\<close>

definition Wireframe_init :: Wireframe where
  "Wireframe_init = \<lparr>nodes = [], edges = [], faces = []\<rparr>"

subsection \<open>Appending geometry\<close>

text \<open>
  \<open>addNodes\<close>: \<open>np.hstack\<close> puts a column of ones to the right of the \<open>N \<times> 3\<close> argument and
  \<open>np.vstack\<close> puts the result under the rows already stored. The argument is an
  \<open>N \<times> 3\<close> array, modelled as a list of triples.
\<close>

definition ones_added :: "vec3 list \<Rightarrow> vec4 list" where
  "ones_added node_array = map (\<lambda>(x, y, z). (x, y, z, 1)) node_array"

definition addNodes :: "vec3 list \<Rightarrow> Wireframe \<Rightarrow> Wireframe" where
  "addNodes node_array w = w\<lparr>nodes := nodes w @ ones_added node_array\<rparr>"

text \<open>
  \<open>addEdges\<close>: the list comprehension is evaluated in full against the edge list as it is
  before the call, then appended. \<open>edge not in self.edges\<close> is Python's tuple equality,
  component by component.
\<close>

definition addEdges :: "(int \<times> int) list \<Rightarrow> Wireframe \<Rightarrow> Wireframe" where
  "addEdges edge_list w =
     w\<lparr>edges := edges w @ filter (\<lambda>edge. edge \<notin> set (edges w)) edge_list\<rparr>"

text \<open>
  Python indexing \<open>xs[i]\<close> with a possibly negative index. It is used below only with
  \<open>- len(xs) \<le> i < len(xs)\<close>, where Python does not raise.
\<close>

definition getitem :: "'a list \<Rightarrow> int \<Rightarrow> 'a" where
  "getitem xs i = (if i < 0 then xs ! nat (int (length xs) + i) else xs ! nat i)"

text \<open>\<open>[(node_list[n-1], node_list[n]) for n in range(num_nodes)]\<close>\<close>

definition face_edges :: "int list \<Rightarrow> (int \<times> int) list" where
  "face_edges node_list =
     map (\<lambda>n. (getitem node_list (int n - 1), getitem node_list (int n)))
       [0 ..< length node_list]"

text \<open>The guard of \<open>addFaces\<close>: \<open>all((node < len(self.nodes) for node in node_list))\<close>.\<close>

definition all_below :: "Wireframe \<Rightarrow> int list \<Rightarrow> bool" where
  "all_below w node_list = list_all (\<lambda>node. node < int (length (nodes w))) node_list"

fun addFaces :: "int list list \<Rightarrow> Wireframe \<Rightarrow> Wireframe" where
  "addFaces [] w = w"
| "addFaces (node_list # face_list) w =
     (if all_below w node_list
      then addFaces face_list
             (addEdges (face_edges node_list) (w\<lparr>faces := faces w @ [node_list]\<rparr>))
      else addFaces face_list w)"

subsection \<open>Transformations\<close>

text \<open>One row of \<open>np.dot(self.nodes, M)\<close>: the row vector times the matrix.\<close>

fun vec_mat :: "vec4 \<Rightarrow> mat4 \<Rightarrow> vec4" where
  "vec_mat (x, y, z, h)
     ((a0, a1, a2, a3), (b0, b1, b2, b3), (c0, c1, c2, c3), (d0, d1, d2, d3)) =
     (x * a0 + y * b0 + z * c0 + h * d0,
      x * a1 + y * b1 + z * c1 + h * d1,
      x * a2 + y * b2 + z * c2 + h * d2,
      x * a3 + y * b3 + z * c3 + h * d3)"

definition np_dot :: "vec4 list \<Rightarrow> mat4 \<Rightarrow> vec4 list" where
  "np_dot rows M = map (\<lambda>v. vec_mat v M) rows"

definition transform :: "mat4 \<Rightarrow> Wireframe \<Rightarrow> Wireframe" where
  "transform transformation_matrix w = w\<lparr>nodes := np_dot (nodes w) transformation_matrix\<rparr>"

definition translate :: "real \<Rightarrow> real \<Rightarrow> real \<Rightarrow> Wireframe \<Rightarrow> Wireframe" where
  "translate dx dy dz w =
     w\<lparr>nodes := np_dot (nodes w)
       ((1, 0, 0, 0),
        (0, 1, 0, 0),
        (0, 0, 1, 0),
        (dx, dy, dz, 1))\<rparr>"

definition scale :: "real \<Rightarrow> real \<Rightarrow> real \<Rightarrow> real \<Rightarrow> Wireframe \<Rightarrow> Wireframe" where
  "scale s cx cy cz w =
     w\<lparr>nodes := np_dot (nodes w)
       ((s, 0, 0, 0),
        (0, s, 0, 0),
        (0, 0, s, 0),
        (cx * (1 - s), cy * (1 - s), cz * (1 - s), 1))\<rparr>"

definition rotateX :: "real \<Rightarrow> real \<Rightarrow> real \<Rightarrow> Wireframe \<Rightarrow> Wireframe" where
  "rotateX y z radians w =
     (let c = cos radians; s = sin radians in
      w\<lparr>nodes := np_dot (nodes w)
        ((1, 0, 0, 0),
         (0, c, - s, 0),
         (0, s, c, 0),
         (0, - y * c - z * s + y, y * s - z * c + z, 1))\<rparr>)"

definition rotateY :: "real \<Rightarrow> real \<Rightarrow> real \<Rightarrow> Wireframe \<Rightarrow> Wireframe" where
  "rotateY x z radians w =
     (let c = cos radians; s = sin radians in
      w\<lparr>nodes := np_dot (nodes w)
        ((c, 0, s, 0),
         (0, 1, 0, 0),
         (- s, 0, c, 0),
         (z * s - x * c + x, 0, - z * c - x * s + z, 1))\<rparr>)"

definition rotateZ :: "real \<Rightarrow> real \<Rightarrow> real \<Rightarrow> Wireframe \<Rightarrow> Wireframe" where
  "rotateZ x y radians w =
     (let c = cos radians; s = sin radians in
      w\<lparr>nodes := np_dot (nodes w)
        ((c, - s, 0, 0),
         (s, c, 0, 0),
         (0, 0, 1, 0),
         (- x * c - y * s + x, x * s - c * y + y, 0, 1))\<rparr>)"

text \<open>
  A call of one of the six transform methods, and a sequence of such calls applied
  from left to right.
\<close>

datatype transform_call =
    Transform mat4
  | Translate real real real
  | Scale real real real real
  | RotateX real real real
  | RotateY real real real
  | RotateZ real real real

fun apply_call :: "transform_call \<Rightarrow> Wireframe \<Rightarrow> Wireframe" where
  "apply_call (Transform M) w = transform M w"
| "apply_call (Translate dx dy dz) w = translate dx dy dz w"
| "apply_call (Scale s cx cy cz) w = scale s cx cy cz w"
| "apply_call (RotateX y z radians) w = rotateX y z radians w"
| "apply_call (RotateY x z radians) w = rotateY x z radians w"
| "apply_call (RotateZ x y radians) w = rotateZ x y radians w"

definition apply_calls :: "transform_call list \<Rightarrow> Wireframe \<Rightarrow> Wireframe" where
  "apply_calls calls w = fold apply_call calls w"

text \<open>The node-wise effect of a call: the matrix it multiplies every row with.\<close>

fun call_matrix :: "transform_call \<Rightarrow> mat4" where
  "call_matrix (Transform M) = M"
| "call_matrix (Translate dx dy dz) =
     ((1, 0, 0, 0), (0, 1, 0, 0), (0, 0, 1, 0), (dx, dy, dz, 1))"
| "call_matrix (Scale s cx cy cz) =
     ((s, 0, 0, 0), (0, s, 0, 0), (0, 0, s, 0), (cx * (1 - s), cy * (1 - s), cz * (1 - s), 1))"
| "call_matrix (RotateX y z r) =
     ((1, 0, 0, 0), (0, cos r, - sin r, 0), (0, sin r, cos r, 0),
      (0, - y * cos r - z * sin r + y, y * sin r - z * cos r + z, 1))"
| "call_matrix (RotateY x z r) =
     ((cos r, 0, sin r, 0), (0, 1, 0, 0), (- sin r, 0, cos r, 0),
      (z * sin r - x * cos r + x, 0, - z * cos r - x * sin r + z, 1))"
| "call_matrix (RotateZ x y r) =
     ((cos r, - sin r, 0, 0), (sin r, cos r, 0, 0), (0, 0, 1, 0),
      (- x * cos r - y * sin r + x, x * sin r - cos r * y + y, 0, 1))"

subsection \<open>The node array in float64\<close>

text \<open>
  The definitions above compute with exact reals. Whether a stored component is
  \<^emph>\<open>exactly\<close> 1 depends on what float64 does, so the node array and the transform
  methods are written out a second time over float64 values: a finite number, plus or
  minus infinity, or NaN. The two zeros of float64 compare equal and are one value here
  (the module never divides). Rounding is not fixed: \<open>rnd\<close> takes the exact result of an
  operation on finite operands to the float64 that is stored, which may be an infinity
  on overflow; \<open>cos64\<close> and \<open>sin64\<close> stand for \<open>np.cos\<close> and \<open>np.sin\<close>. The arguments of the
  methods are floats. A row of \<open>np.dot\<close> is summed from left to right.
\<close>

datatype float64 = Fin real | PInf | NInf | NaN

record float_ops =
  rnd :: "real \<Rightarrow> float64"
  cos64 :: "float64 \<Rightarrow> float64"
  sin64 :: "float64 \<Rightarrow> float64"

fun fneg :: "float64 \<Rightarrow> float64" where
  "fneg (Fin r) = Fin (- r)"
| "fneg PInf = NInf"
| "fneg NInf = PInf"
| "fneg NaN = NaN"

text \<open>Infinity times zero is NaN; otherwise the sign of an infinite product is the product of the signs.\<close>

fun fmul :: "float_ops \<Rightarrow> float64 \<Rightarrow> float64 \<Rightarrow> float64" where
  "fmul u (Fin a) (Fin b) = rnd u (a * b)"
| "fmul u NaN b = NaN"
| "fmul u a NaN = NaN"
| "fmul u (Fin a) PInf = (if a = 0 then NaN else if 0 < a then PInf else NInf)"
| "fmul u (Fin a) NInf = (if a = 0 then NaN else if 0 < a then NInf else PInf)"
| "fmul u PInf (Fin b) = (if b = 0 then NaN else if 0 < b then PInf else NInf)"
| "fmul u NInf (Fin b) = (if b = 0 then NaN else if 0 < b then NInf else PInf)"
| "fmul u PInf PInf = PInf"
| "fmul u PInf NInf = NInf"
| "fmul u NInf PInf = NInf"
| "fmul u NInf NInf = PInf"

text \<open>Infinity plus the opposite infinity is NaN.\<close>

fun fadd :: "float_ops \<Rightarrow> float64 \<Rightarrow> float64 \<Rightarrow> float64" where
  "fadd u (Fin a) (Fin b) = rnd u (a + b)"
| "fadd u NaN b = NaN"
| "fadd u a NaN = NaN"
| "fadd u PInf NInf = NaN"
| "fadd u NInf PInf = NaN"
| "fadd u PInf b = PInf"
| "fadd u a PInf = PInf"
| "fadd u NInf b = NInf"
| "fadd u a NInf = NInf"

definition fsub :: "float_ops \<Rightarrow> float64 \<Rightarrow> float64 \<Rightarrow> float64" where
  "fsub u a b = fadd u a (fneg b)"

type_synonym vec64 = "float64 \<times> float64 \<times> float64 \<times> float64"
type_synonym mat64 = "vec64 \<times> vec64 \<times> vec64 \<times> vec64"

fun vec_mat64 :: "float_ops \<Rightarrow> vec64 \<Rightarrow> mat64 \<Rightarrow> vec64" where
  "vec_mat64 u (x, y, z, h)
     ((a0, a1, a2, a3), (b0, b1, b2, b3), (c0, c1, c2, c3), (d0, d1, d2, d3)) =
     (fadd u (fadd u (fadd u (fmul u x a0) (fmul u y b0)) (fmul u z c0)) (fmul u h d0),
      fadd u (fadd u (fadd u (fmul u x a1) (fmul u y b1)) (fmul u z c1)) (fmul u h d1),
      fadd u (fadd u (fadd u (fmul u x a2) (fmul u y b2)) (fmul u z c2)) (fmul u h d2),
      fadd u (fadd u (fadd u (fmul u x a3) (fmul u y b3)) (fmul u z c3)) (fmul u h d3))"

definition np_dot64 :: "float_ops \<Rightarrow> vec64 list \<Rightarrow> mat64 \<Rightarrow> vec64 list" where
  "np_dot64 u rows M = map (\<lambda>v. vec_mat64 u v M) rows"

text \<open>\<open>addNodes\<close> on the node array: \<open>np.ones\<close> is the float 1.\<close>

definition addNodes64 :: "(float64 \<times> float64 \<times> float64) list \<Rightarrow> vec64 list \<Rightarrow> vec64 list" where
  "addNodes64 node_array rows = rows @ map (\<lambda>(x, y, z). (x, y, z, Fin 1)) node_array"

text \<open>The arrays the five methods build, entry by entry as in the source.\<close>

definition translate_matrix64 :: "float64 \<Rightarrow> float64 \<Rightarrow> float64 \<Rightarrow> mat64" where
  "translate_matrix64 dx dy dz =
     ((Fin 1, Fin 0, Fin 0, Fin 0),
      (Fin 0, Fin 1, Fin 0, Fin 0),
      (Fin 0, Fin 0, Fin 1, Fin 0),
      (dx, dy, dz, Fin 1))"

definition scale_matrix64 :: "float_ops \<Rightarrow> float64 \<Rightarrow> float64 \<Rightarrow> float64 \<Rightarrow> float64 \<Rightarrow> mat64" where
  "scale_matrix64 u s cx cy cz =
     ((s, Fin 0, Fin 0, Fin 0),
      (Fin 0, s, Fin 0, Fin 0),
      (Fin 0, Fin 0, s, Fin 0),
      (fmul u cx (fsub u (Fin 1) s), fmul u cy (fsub u (Fin 1) s),
       fmul u cz (fsub u (Fin 1) s), Fin 1))"

definition rotateX_matrix64 :: "float_ops \<Rightarrow> float64 \<Rightarrow> float64 \<Rightarrow> float64 \<Rightarrow> mat64" where
  "rotateX_matrix64 u y z radians =
     (let c = cos64 u radians; s = sin64 u radians in
      ((Fin 1, Fin 0, Fin 0, Fin 0),
       (Fin 0, c, fneg s, Fin 0),
       (Fin 0, s, c, Fin 0),
       (Fin 0,
        fadd u (fsub u (fmul u (fneg y) c) (fmul u z s)) y,
        fadd u (fsub u (fmul u y s) (fmul u z c)) z,
        Fin 1)))"

definition rotateY_matrix64 :: "float_ops \<Rightarrow> float64 \<Rightarrow> float64 \<Rightarrow> float64 \<Rightarrow> mat64" where
  "rotateY_matrix64 u x z radians =
     (let c = cos64 u radians; s = sin64 u radians in
      ((c, Fin 0, s, Fin 0),
       (Fin 0, Fin 1, Fin 0, Fin 0),
       (fneg s, Fin 0, c, Fin 0),
       (fadd u (fsub u (fmul u z s) (fmul u x c)) x,
        Fin 0,
        fadd u (fsub u (fmul u (fneg z) c) (fmul u x s)) z,
        Fin 1)))"

definition rotateZ_matrix64 :: "float_ops \<Rightarrow> float64 \<Rightarrow> float64 \<Rightarrow> float64 \<Rightarrow> mat64" where
  "rotateZ_matrix64 u x y radians =
     (let c = cos64 u radians; s = sin64 u radians in
      ((c, fneg s, Fin 0, Fin 0),
       (s, c, Fin 0, Fin 0),
       (Fin 0, Fin 0, Fin 1, Fin 0),
       (fadd u (fsub u (fmul u (fneg x) c) (fmul u y s)) x,
        fadd u (fsub u (fmul u x s) (fmul u c y)) y,
        Fin 0,
        Fin 1)))"

text \<open>The six methods: \<open>self.nodes = np.dot(self.nodes, matrix)\<close>.\<close>

definition transform64 :: "float_ops \<Rightarrow> mat64 \<Rightarrow> vec64 list \<Rightarrow> vec64 list" where
  "transform64 u transformation_matrix rows = np_dot64 u rows transformation_matrix"

definition translate64 :: "float_ops \<Rightarrow> float64 \<Rightarrow> float64 \<Rightarrow> float64 \<Rightarrow> vec64 list \<Rightarrow> vec64 list" where
  "translate64 u dx dy dz rows = np_dot64 u rows (translate_matrix64 dx dy dz)"

definition scale64 :: "float_ops \<Rightarrow> float64 \<Rightarrow> float64 \<Rightarrow> float64 \<Rightarrow> float64 \<Rightarrow> vec64 list \<Rightarrow> vec64 list" where
  "scale64 u s cx cy cz rows = np_dot64 u rows (scale_matrix64 u s cx cy cz)"

definition rotateX64 :: "float_ops \<Rightarrow> float64 \<Rightarrow> float64 \<Rightarrow> float64 \<Rightarrow> vec64 list \<Rightarrow> vec64 list" where
  "rotateX64 u y z radians rows = np_dot64 u rows (rotateX_matrix64 u y z radians)"

definition rotateY64 :: "float_ops \<Rightarrow> float64 \<Rightarrow> float64 \<Rightarrow> float64 \<Rightarrow> vec64 list \<Rightarrow> vec64 list" where
  "rotateY64 u x z radians rows = np_dot64 u rows (rotateY_matrix64 u x z radians)"

definition rotateZ64 :: "float_ops \<Rightarrow> float64 \<Rightarrow> float64 \<Rightarrow> float64 \<Rightarrow> vec64 list \<Rightarrow> vec64 list" where
  "rotateZ64 u x y radians rows = np_dot64 u rows (rotateZ_matrix64 u x y radians)"

datatype call64 =
    Transform64 mat64
  | Translate64 float64 float64 float64
  | Scale64 float64 float64 float64 float64
  | RotateX64 float64 float64 float64
  | RotateY64 float64 float64 float64
  | RotateZ64 float64 float64 float64

fun apply_call64 :: "float_ops \<Rightarrow> call64 \<Rightarrow> vec64 list \<Rightarrow> vec64 list" where
  "apply_call64 u (Transform64 M) rows = transform64 u M rows"
| "apply_call64 u (Translate64 dx dy dz) rows = translate64 u dx dy dz rows"
| "apply_call64 u (Scale64 s cx cy cz) rows = scale64 u s cx cy cz rows"
| "apply_call64 u (RotateX64 y z radians) rows = rotateX64 u y z radians rows"
| "apply_call64 u (RotateY64 x z radians) rows = rotateY64 u x z radians rows"
| "apply_call64 u (RotateZ64 x y radians) rows = rotateZ64 u x y radians rows"

fun call_matrix64 :: "float_ops \<Rightarrow> call64 \<Rightarrow> mat64" where
  "call_matrix64 u (Transform64 M) = M"
| "call_matrix64 u (Translate64 dx dy dz) = translate_matrix64 dx dy dz"
| "call_matrix64 u (Scale64 s cx cy cz) = scale_matrix64 u s cx cy cz"
| "call_matrix64 u (RotateX64 y z radians) = rotateX_matrix64 u y z radians"
| "call_matrix64 u (RotateY64 x z radians) = rotateY_matrix64 u x z radians"
| "call_matrix64 u (RotateZ64 x y radians) = rotateZ_matrix64 u x y radians"

definition apply_calls64 :: "float_ops \<Rightarrow> call64 list \<Rightarrow> vec64 list \<Rightarrow> vec64 list" where
  "apply_calls64 u calls rows = fold (apply_call64 u) calls rows"

subsection \<open>Centre of a wireframe\<close>

text \<open>\<open>self.nodes[:,:-1]\<close>: every row without its last column.\<close>

definition xyz :: "vec4 list \<Rightarrow> vec3 list" where
  "xyz rows = map (\<lambda>(x, y, z, h). (x, y, z)) rows"

fun min3 :: "vec3 \<Rightarrow> vec3 \<Rightarrow> vec3" where
  "min3 (x, y, z) (a, b, c) = (min x a, min y b, min z c)"

fun max3 :: "vec3 \<Rightarrow> vec3 \<Rightarrow> vec3" where
  "max3 (x, y, z) (a, b, c) = (max x a, max y b, max z c)"

text \<open>
  \<open>.min(axis=0)\<close> and \<open>.max(axis=0)\<close> of an array of 3-vectors: the minimum and the maximum
  of each column. On an array without rows numpy raises \<open>ValueError\<close> (a zero-size array
  has no minimum).
\<close>

fun amin :: "vec3 list \<Rightarrow> error + vec3" where
  "amin [] = Inl ValueError"
| "amin (v # vs) = Inr (fold min3 vs v)"

fun amax :: "vec3 list \<Rightarrow> error + vec3" where
  "amax [] = Inl ValueError"
| "amax (v # vs) = Inr (fold max3 vs v)"

text \<open>\<open>0.5*(min_values + max_values)\<close>\<close>

fun half_sum :: "vec3 \<Rightarrow> vec3 \<Rightarrow> vec3" where
  "half_sum (a, b, c) (d, e, f) = (0.5 * (a + d), 0.5 * (b + e), 0.5 * (c + f))"

definition findCentre :: "Wireframe \<Rightarrow> error + vec3" where
  "findCentre w =
     (case amin (xyz (nodes w)) of
        Inl e \<Rightarrow> Inl e
      | Inr min_values \<Rightarrow>
          (case amax (xyz (nodes w)) of
             Inl e \<Rightarrow> Inl e
           | Inr max_values \<Rightarrow> Inr (half_sum min_values max_values)))"

subsection \<open>Groups of wireframes\<close>

text \<open>
  \<open>WireframeGroup\<close> holds a dict from names to wireframes, here an association list
  with one entry per name. The order in which Python walks the dict is not fixed; the
  results below are a minimum, a maximum, or one independent update per member, none of
  which depends on that order. The members are distinct objects: a wireframe registered
  under two names would be transformed twice by a broadcast, which the list of values
  does not show.
\<close>

record WireframeGroup =
  wireframes :: "(string \<times> Wireframe) list"

definition WireframeGroup_init :: WireframeGroup where
  "WireframeGroup_init = \<lparr>wireframes = []\<rparr>"

text \<open>\<open>d[name] = wireframe\<close>: replace the entry of the name, or add one.\<close>

fun setitem :: "string \<Rightarrow> Wireframe \<Rightarrow> (string \<times> Wireframe) list \<Rightarrow> (string \<times> Wireframe) list" where
  "setitem name wireframe [] = [(name, wireframe)]"
| "setitem name wireframe ((k, v) # rest) =
     (if k = name then (name, wireframe) # rest else (k, v) # setitem name wireframe rest)"

definition addWireframe :: "string \<Rightarrow> Wireframe \<Rightarrow> WireframeGroup \<Rightarrow> WireframeGroup" where
  "addWireframe name wireframe g = g\<lparr>wireframes := setitem name wireframe (wireframes g)\<rparr>"

text \<open>\<open>self.wireframes.values()\<close>\<close>

definition values_of :: "WireframeGroup \<Rightarrow> Wireframe list" where
  "values_of g = map snd (wireframes g)"

text \<open>
  A list comprehension whose element expression may raise: the first exception ends it.
\<close>

fun collect :: "('a \<Rightarrow> error + 'b) \<Rightarrow> 'a list \<Rightarrow> error + 'b list" where
  "collect f [] = Inr []"
| "collect f (x # xs) =
     (case f x of
        Inl e \<Rightarrow> Inl e
      | Inr y \<Rightarrow> (case collect f xs of Inl e \<Rightarrow> Inl e | Inr ys \<Rightarrow> Inr (y # ys)))"

text \<open>
  \<open>WireframeGroup.findCentre\<close>: the minima of the members, then the minimum of those;
  the same for the maxima; then the midpoint. \<open>np.array([])\<close> of an empty group has no
  minimum either.
\<close>

definition group_findCentre :: "WireframeGroup \<Rightarrow> error + vec3" where
  "group_findCentre g =
     (case collect (\<lambda>wireframe. amin (xyz (nodes wireframe))) (values_of g) of
        Inl e \<Rightarrow> Inl e
      | Inr member_minima \<Rightarrow>
     (case amin member_minima of
        Inl e \<Rightarrow> Inl e
      | Inr min_values \<Rightarrow>
     (case collect (\<lambda>wireframe. amax (xyz (nodes wireframe))) (values_of g) of
        Inl e \<Rightarrow> Inl e
      | Inr member_maxima \<Rightarrow>
     (case amax member_maxima of
        Inl e \<Rightarrow> Inl e
      | Inr max_values \<Rightarrow> Inr (half_sum min_values max_values)))))"

text \<open>The loop \<open>for wireframe in self.wireframes.values(): wireframe.method(...)\<close>.\<close>

definition broadcast :: "(Wireframe \<Rightarrow> Wireframe) \<Rightarrow> WireframeGroup \<Rightarrow> WireframeGroup" where
  "broadcast call g =
     g\<lparr>wireframes := map (\<lambda>(name, wireframe). (name, call wireframe)) (wireframes g)\<rparr>"

text \<open>
  The group rotations. \<open>centre\<close> is \<open>None\<close> when omitted, else a pair; \<open>not centre\<close> is
  true for \<open>None\<close> and false for a pair.
\<close>

definition group_rotateX :: "real \<Rightarrow> (real \<times> real) option \<Rightarrow> WireframeGroup \<Rightarrow> error + WireframeGroup" where
  "group_rotateX radians centre g =
     (case centre of
        None \<Rightarrow>
          (case group_findCentre g of
             Inl e \<Rightarrow> Inl e
           | Inr (cx, cy, cz) \<Rightarrow> Inr (broadcast (rotateX cy cz radians) g))
      | Some (cy, cz) \<Rightarrow> Inr (broadcast (rotateX cy cz radians) g))"

definition group_rotateY :: "real \<Rightarrow> (real \<times> real) option \<Rightarrow> WireframeGroup \<Rightarrow> error + WireframeGroup" where
  "group_rotateY radians centre g =
     (case centre of
        None \<Rightarrow>
          (case group_findCentre g of
             Inl e \<Rightarrow> Inl e
           | Inr (cx, cy, cz) \<Rightarrow> Inr (broadcast (rotateY cx cz radians) g))
      | Some (cx, cz) \<Rightarrow> Inr (broadcast (rotateY cx cz radians) g))"

definition group_rotateZ :: "real \<Rightarrow> (real \<times> real) option \<Rightarrow> WireframeGroup \<Rightarrow> error + WireframeGroup" where
  "group_rotateZ radians centre g =
     (case centre of
        None \<Rightarrow>
          (case group_findCentre g of
             Inl e \<Rightarrow> Inl e
           | Inr (cx, cy, cz) \<Rightarrow> Inr (broadcast (rotateZ cx cy radians) g))
      | Some (cx, cy) \<Rightarrow> Inr (broadcast (rotateZ cx cy radians) g))"

subsection \<open>Vocabulary of the properties\<close>

text \<open>A loop with an index greater than or equal to the current node count.\<close>

definition too_large :: "Wireframe \<Rightarrow> int list \<Rightarrow> bool" where
  "too_large w node_list = list_ex (\<lambda>node. int (length (nodes w)) \<le> node) node_list"

text \<open>
  \<open>self.nodes[i]\<close> does not raise exactly when \<open>- len(self.nodes) \<le> i < len(self.nodes)\<close>.
\<close>

definition valid_index :: "Wireframe \<Rightarrow> int \<Rightarrow> bool" where
  "valid_index w i = (- int (length (nodes w)) \<le> i \<and> i < int (length (nodes w)))"

text \<open>Every stored node has the homogeneous component 1.\<close>

definition homogeneous :: "Wireframe \<Rightarrow> bool" where
  "homogeneous w = list_all (\<lambda>(x, y, z, h). h = 1) (nodes w)"

text \<open>The same on the float64 node array: every fourth component is the float 1.\<close>

definition homogeneous64 :: "vec64 list \<Rightarrow> bool" where
  "homogeneous64 rows = list_all (\<lambda>(x, y, z, h). h = Fin 1) rows"

fun is_fin :: "float64 \<Rightarrow> bool" where
  "is_fin (Fin r) = True"
| "is_fin PInf = False"
| "is_fin NInf = False"
| "is_fin NaN = False"

text \<open>No stored x, y or z coordinate is an infinity or NaN.\<close>

definition finite_xyz :: "vec64 list \<Rightarrow> bool" where
  "finite_xyz rows = list_all (\<lambda>(x, y, z, h). is_fin x \<and> is_fin y \<and> is_fin z) rows"

text \<open>The coordinates are finite before each call of a sequence.\<close>

fun finite_before_each :: "float_ops \<Rightarrow> call64 list \<Rightarrow> vec64 list \<Rightarrow> bool" where
  "finite_before_each u [] rows = True"
| "finite_before_each u (c # calls) rows =
     (finite_xyz rows \<and> finite_before_each u calls (apply_call64 u c rows))"

fun last_column64 :: "mat64 \<Rightarrow> vec64" where
  "last_column64 ((a0, a1, a2, a3), (b0, b1, b2, b3), (c0, c1, c2, c3), (d0, d1, d2, d3)) =
     (a3, b3, c3, d3)"

definition affine64 :: "float_ops \<Rightarrow> call64 \<Rightarrow> bool" where
  "affine64 u c = (last_column64 (call_matrix64 u c) = (Fin 0, Fin 0, Fin 0, Fin 1))"

text \<open>The calls whose matrix the module builds itself: all but \<open>transform\<close>.\<close>

fun built_by_engine :: "call64 \<Rightarrow> bool" where
  "built_by_engine (Transform64 M) = False"
| "built_by_engine (Translate64 dx dy dz) = True"
| "built_by_engine (Scale64 s cx cy cz) = True"
| "built_by_engine (RotateX64 y z r) = True"
| "built_by_engine (RotateY64 x z r) = True"
| "built_by_engine (RotateZ64 x y r) = True"

text \<open>What is asked of the rounding: the numbers 0 and 1 are float64 values, stored as they are.\<close>

definition exact_zero_one :: "float_ops \<Rightarrow> bool" where
  "exact_zero_one u = (rnd u 0 = Fin 0 \<and> rnd u 1 = Fin 1)"

text \<open>
  One arithmetic to compute examples with: exact below the overflow threshold, an
  infinity from there on.
\<close>

definition overflow_only :: float_ops where
  "overflow_only =
     \<lparr>rnd = (\<lambda>r. if \<bar>r\<bar> < 2 ^ 1024 then Fin r else if 0 < r then PInf else NInf),
      cos64 = (\<lambda>a. case a of Fin r \<Rightarrow> Fin (cos r) | _ \<Rightarrow> NaN),
      sin64 = (\<lambda>a. case a of Fin r \<Rightarrow> Fin (sin r) | _ \<Rightarrow> NaN)\<rparr>"

text \<open>
  The arithmetic that never rounds and never overflows, and the reals read as finite
  floats: with these the float64 methods are the methods over the reals.
\<close>

definition exact_ops :: float_ops where
  "exact_ops =
     \<lparr>rnd = Fin,
      cos64 = (\<lambda>a. case a of Fin r \<Rightarrow> Fin (cos r) | _ \<Rightarrow> NaN),
      sin64 = (\<lambda>a. case a of Fin r \<Rightarrow> Fin (sin r) | _ \<Rightarrow> NaN)\<rparr>"

fun fin4 :: "vec4 \<Rightarrow> vec64" where
  "fin4 (x, y, z, h) = (Fin x, Fin y, Fin z, Fin h)"

fun fin_matrix :: "mat4 \<Rightarrow> mat64" where
  "fin_matrix (a, b, c, d) = (fin4 a, fin4 b, fin4 c, fin4 d)"

fun fin_call :: "transform_call \<Rightarrow> call64" where
  "fin_call (Transform M) = Transform64 (fin_matrix M)"
| "fin_call (Translate dx dy dz) = Translate64 (Fin dx) (Fin dy) (Fin dz)"
| "fin_call (Scale s cx cy cz) = Scale64 (Fin s) (Fin cx) (Fin cy) (Fin cz)"
| "fin_call (RotateX y z r) = RotateX64 (Fin y) (Fin z) (Fin r)"
| "fin_call (RotateY x z r) = RotateY64 (Fin x) (Fin z) (Fin r)"
| "fin_call (RotateZ x y r) = RotateZ64 (Fin x) (Fin y) (Fin r)"

text \<open>Scaling a point about a pivot, axis by axis: pivot + s (point - pivot).\<close>

fun scaled_about :: "real \<Rightarrow> real \<Rightarrow> real \<Rightarrow> real \<Rightarrow> vec4 \<Rightarrow> vec4" where
  "scaled_about s cx cy cz (x, y, z, h) =
     (cx + s * (x - cx), cy + s * (y - cy), cz + s * (z - cz), 1)"

text \<open>
  The words of the specification for a bounding box: on each axis the smallest and the
  largest coordinate of a collection of points, and the midpoint of the two.
\<close>

definition axis_minima :: "vec3 list \<Rightarrow> vec3" where
  "axis_minima points =
     (Min (set (map fst points)),
      Min (set (map (fst \<circ> snd) points)),
      Min (set (map (snd \<circ> snd) points)))"

definition axis_maxima :: "vec3 list \<Rightarrow> vec3" where
  "axis_maxima points =
     (Max (set (map fst points)),
      Max (set (map (fst \<circ> snd) points)),
      Max (set (map (snd \<circ> snd) points)))"

definition bounding_box_centre :: "vec3 list \<Rightarrow> vec3" where
  "bounding_box_centre points = half_sum (axis_minima points) (axis_maxima points)"

text \<open>The nodes of all members of a group, as one buffer.\<close>

definition union_buffer :: "WireframeGroup \<Rightarrow> Wireframe" where
  "union_buffer g = \<lparr>nodes = concat (map nodes (values_of g)), edges = [], faces = []\<rparr>"

text \<open>A group with at least one member, all of whose members have at least one node.\<close>

definition populated :: "WireframeGroup \<Rightarrow> bool" where
  "populated g = (wireframes g \<noteq> [] \<and> list_all (\<lambda>wireframe. nodes wireframe \<noteq> []) (values_of g))"

section \<open>Properties\<close>

subsection \<open>The square face scenario\<close>

text \<open>
  C9. On a wireframe holding the four nodes (0,0,0), (1,0,0), (1,1,0), (0,1,0) and no
  edges or faces, \<open>addFaces([[0,1,2,3]])\<close> stores exactly the face [0,1,2,3] and exactly
  the four edges (3,0), (0,1), (1,2), (2,3), in this order: the pair for \<open>n = 0\<close> is
  \<open>(loop[-1], loop[0])\<close>, the wraparound pair, and the pairs reach the edge list through
  \<open>addEdges\<close>.
\<close>

theorem addFaces_square:
  "addFaces [[0, 1, 2, 3]] (addNodes [(0, 0, 0), (1, 0, 0), (1, 1, 0), (0, 1, 0)] Wireframe_init)
     = \<lparr>nodes = [(0, 0, 0, 1), (1, 0, 0, 1), (1, 1, 0, 1), (0, 1, 0, 1)],
        edges = [(3, 0), (0, 1), (1, 2), (2, 3)],
        faces = [[0, 1, 2, 3]]\<rparr>
   \<and> face_edges [0, 1, 2, 3] = [(3, 0), (0, 1), (1, 2), (2, 3)]
   \<and> addFaces [[0, 1, 2, 3]] (addNodes [(0, 0, 0), (1, 0, 0), (1, 1, 0), (0, 1, 0)] Wireframe_init)
     = addEdges (face_edges [0, 1, 2, 3])
         ((addNodes [(0, 0, 0), (1, 0, 0), (1, 1, 0), (0, 1, 0)] Wireframe_init)
            \<lparr>faces := [[0, 1, 2, 3]]\<rparr>)"
  by (simp add: addNodes_def ones_added_def Wireframe_init_def all_below_def addEdges_def
      face_edges_def getitem_def upt_rec)


subsection \<open>Append operations leave accumulated geometry alone\<close>

lemma all_below_cong: "nodes w' = nodes w \<Longrightarrow> all_below w' = all_below w"
  by (rule ext) (simp add: all_below_def)

lemma addEdges_nodes: "nodes (addEdges edge_list w) = nodes w"
  by (simp add: addEdges_def)

lemma addEdges_faces: "faces (addEdges edge_list w) = faces w"
  by (simp add: addEdges_def)

lemma addFaces_nodes: "nodes (addFaces face_list w) = nodes w"
  by (induction face_list arbitrary: w) (simp_all add: addEdges_nodes)

lemma addFaces_faces: "faces (addFaces face_list w) = faces w @ filter (all_below w) face_list"
proof (induction face_list arbitrary: w)
  case Nil
  show ?case by simp
next
  case (Cons node_list face_list)
  let ?w' = "addEdges (face_edges node_list) (w\<lparr>faces := faces w @ [node_list]\<rparr>)"
  have "all_below ?w' = all_below w"
    by (rule all_below_cong) (simp add: addEdges_nodes)
  then show ?case
    by (simp add: Cons.IH addEdges_faces)
qed

lemma addFaces_edges: "\<exists>new. edges (addFaces face_list w) = edges w @ new"
proof (induction face_list arbitrary: w)
  case Nil
  show ?case by simp
next
  case (Cons node_list face_list)
  show ?case
  proof (cases "all_below w node_list")
    case True
    let ?w' = "addEdges (face_edges node_list) (w\<lparr>faces := faces w @ [node_list]\<rparr>)"
    obtain new where "edges (addFaces face_list ?w') = edges ?w' @ new"
      using Cons.IH by blast
    then have "edges (addFaces (node_list # face_list) w) =
        edges w @ (filter (\<lambda>edge. edge \<notin> set (edges w)) (face_edges node_list) @ new)"
      using True by (simp add: addEdges_def)
    then show ?thesis by blast
  next
    case False
    then show ?thesis using Cons.IH by simp
  qed
qed

text \<open>
  C10. Each of \<open>addNodes\<close>, \<open>addEdges\<close> and \<open>addFaces\<close> keeps every node, edge and face
  that was stored before the call, at the same position, and puts whatever it adds behind
  them: the new sequence is the old one followed by the additions, and the sequences the
  call is not about are the old ones.
\<close>

theorem append_only:
  "nodes (addNodes node_array w) = nodes w @ ones_added node_array
   \<and> edges (addNodes node_array w) = edges w
   \<and> faces (addNodes node_array w) = faces w
   \<and> nodes (addEdges edge_list w) = nodes w
   \<and> edges (addEdges edge_list w)
       = edges w @ filter (\<lambda>edge. edge \<notin> set (edges w)) edge_list
   \<and> faces (addEdges edge_list w) = faces w
   \<and> nodes (addFaces face_list w) = nodes w
   \<and> (\<exists>new. edges (addFaces face_list w) = edges w @ new)
   \<and> faces (addFaces face_list w) = faces w @ filter (all_below w) face_list"
  using addFaces_edges [of face_list w]
  by (simp add: addNodes_def addEdges_def addFaces_nodes addFaces_faces)

subsection \<open>Transform calls change coordinates only\<close>

lemma apply_call_transform: "apply_call c w = transform (call_matrix c) w"
  by (cases c)
    (simp_all add: transform_def translate_def scale_def rotateX_def rotateY_def rotateZ_def
      Let_def)

lemma apply_calls_edges: "edges (apply_calls calls w) = edges w"
  unfolding apply_calls_def
  by (induction calls arbitrary: w) (simp_all add: apply_call_transform transform_def)

lemma apply_calls_faces: "faces (apply_calls calls w) = faces w"
  unfolding apply_calls_def
  by (induction calls arbitrary: w) (simp_all add: apply_call_transform transform_def)

lemma apply_calls_nodes:
  "nodes (apply_calls calls w)
     = map (\<lambda>v. fold (\<lambda>c u. vec_mat u (call_matrix c)) calls v) (nodes w)"
  unfolding apply_calls_def
  by (induction calls arbitrary: w)
    (simp_all add: apply_call_transform transform_def np_dot_def comp_def)

text \<open>
  C7. A transform call (\<open>transform\<close> with any matrix, \<open>translate\<close>, \<open>scale\<close>, \<open>rotateX\<close>,
  \<open>rotateY\<close>, \<open>rotateZ\<close>) replaces each node by that node times the call's matrix, so the
  number of nodes and their order stay, and it returns the edge list and the face list
  as they were. The same holds for every sequence of transform calls: the node at a
  position of the result is computed from the node at that position of the input alone.
\<close>

theorem transform_calls_frame:
  "nodes (transform M w) = map (\<lambda>v. vec_mat v M) (nodes w)
   \<and> nodes (apply_call c w) = map (\<lambda>v. vec_mat v (call_matrix c)) (nodes w)
   \<and> length (nodes (apply_call c w)) = length (nodes w)
   \<and> edges (apply_call c w) = edges w
   \<and> faces (apply_call c w) = faces w
   \<and> nodes (apply_calls calls w)
       = map (\<lambda>v. fold (\<lambda>c u. vec_mat u (call_matrix c)) calls v) (nodes w)
   \<and> length (nodes (apply_calls calls w)) = length (nodes w)
   \<and> edges (apply_calls calls w) = edges w
   \<and> faces (apply_calls calls w) = faces w"
  by (simp add: apply_calls_nodes apply_calls_edges apply_calls_faces
      apply_call_transform transform_def np_dot_def)


subsection \<open>Edge deduplication\<close>

lemma addEdges_present: "set edge_list \<subseteq> set (edges w) \<Longrightarrow> addEdges edge_list w = w"
proof -
  assume "set edge_list \<subseteq> set (edges w)"
  then have "filter (\<lambda>edge. edge \<notin> set (edges w)) edge_list = []"
    by (auto simp add: filter_empty_conv)
  then show ?thesis by (simp add: addEdges_def)
qed

lemma addEdges_covers: "set edge_list \<subseteq> set (edges (addEdges edge_list w))"
  by (auto simp add: addEdges_def)

lemma addEdges_distinct:
  "distinct (edges w) \<Longrightarrow> distinct edge_list \<Longrightarrow> distinct (edges (addEdges edge_list w))"
  by (auto simp add: addEdges_def)

text \<open>
  The claim C1 as written fails: the membership test compares tuples component by
  component, so a pair stored as (0, 1) does not stop (1, 0) from being appended.
\<close>

theorem addEdges_reversed_pair_appended:
  "edges (addEdges [(1, 0)] (addEdges [(0, 1)] Wireframe_init)) = [(0, 1), (1, 0)]
   \<and> length (edges (addEdges [(1, 0)] (addEdges [(0, 1)] Wireframe_init)))
       = Suc (length (edges (addEdges [(0, 1)] Wireframe_init)))"
  by (simp add: addEdges_def Wireframe_init_def)

text \<open>
  C1, amended. \<open>addEdges\<close> appends a candidate pair only if no pair equal to it as an
  ordered pair (same first and same second index) is in the edge list before the call.
  Consequently \<open>addEdges\<close> is idempotent for one orientation: adding pairs that are
  all present in the orientation given changes nothing, and repeating a call adds
  nothing more. When the edge list and the argument are each free of repeated ordered
  pairs, so is the resulting edge list.
\<close>

theorem addEdges_ordered_dedup:
  "edges (addEdges edge_list w) = edges w @ filter (\<lambda>edge. edge \<notin> set (edges w)) edge_list
   \<and> (set edge_list \<subseteq> set (edges w) \<longrightarrow> addEdges edge_list w = w)
   \<and> addEdges edge_list (addEdges edge_list w) = addEdges edge_list w
   \<and> (distinct (edges w) \<and> distinct edge_list \<longrightarrow> distinct (edges (addEdges edge_list w)))"
  using addEdges_present [of edge_list w]
    addEdges_present [OF addEdges_covers [of edge_list w]]
    addEdges_distinct [of w edge_list]
  by (simp add: addEdges_def)

theorem addEdges_ordered_dedup_witness:
  "set [(0, 1), (1, 2)] \<subseteq> set (edges (addEdges [(0, 1), (1, 2)] Wireframe_init))
   \<and> addEdges [(0, 1), (1, 2)] (addEdges [(0, 1), (1, 2)] Wireframe_init)
       = addEdges [(0, 1), (1, 2)] Wireframe_init
   \<and> distinct (edges (addEdges [(0, 1), (1, 2)] Wireframe_init))
   \<and> distinct [(2, 3), (0, 1 :: int) :: int \<times> int]
   \<and> distinct (edges (addEdges [(2, 3), (0, 1)] (addEdges [(0, 1), (1, 2)] Wireframe_init)))
   \<and> edges (addEdges [(2, 3), (0, 1)] (addEdges [(0, 1), (1, 2)] Wireframe_init))
       = [(0, 1), (1, 2), (2, 3)]"
proof -
  let ?w = "addEdges [(0, 1), (1, 2)] Wireframe_init"
  have e: "edges ?w = [(0, 1), (1, 2)]"
    by (simp add: addEdges_def Wireframe_init_def)
  have d: "distinct (edges ?w) \<and> distinct [(2, 3), (0, 1 :: int) :: int \<times> int]"
    by (simp add: e)
  have s: "set [(0, 1), (1, 2)] \<subseteq> set (edges ?w)"
    by (simp add: e)
  show ?thesis
    using addEdges_ordered_dedup [of "[(0, 1), (1, 2)]" ?w]
      addEdges_ordered_dedup [of "[(2, 3), (0, 1)]" ?w] d s
    by (simp add: e)
qed

subsection \<open>Faces with an index that is too large\<close>

lemma too_large_iff: "too_large w node_list \<longleftrightarrow> \<not> all_below w node_list"
  by (induction node_list) (auto simp add: too_large_def all_below_def)

lemma addFaces_filter: "addFaces face_list w = addFaces (filter (all_below w) face_list) w"
proof (induction face_list arbitrary: w)
  case Nil
  show ?case by simp
next
  case (Cons node_list face_list)
  show ?case
  proof (cases "all_below w node_list")
    case True
    let ?w' = "addEdges (face_edges node_list) (w\<lparr>faces := faces w @ [node_list]\<rparr>)"
    have "all_below ?w' = all_below w"
      by (rule all_below_cong) (simp add: addEdges_nodes)
    with True Cons.IH [of ?w'] show ?thesis by simp
  next
    case False
    with Cons.IH [of w] show ?thesis by simp
  qed
qed

lemma addFaces_all_rejected: "list_all (too_large w) face_list \<Longrightarrow> addFaces face_list w = w"
  by (induction face_list) (simp_all add: too_large_iff)

text \<open>
  The claim C2 as written fails in its second half: the guard is evaluated for each loop
  on its own, so a loop with an index that is too large is dropped while a sound loop of
  the same call is stored together with its edges.
\<close>

theorem addFaces_mixed_call_changes_counts:
  "too_large (addNodes [(0, 0, 0), (1, 0, 0), (0, 1, 0)] Wireframe_init) [0, 1, 3]
   \<and> faces (addFaces [[0, 1, 2], [0, 1, 3]]
        (addNodes [(0, 0, 0), (1, 0, 0), (0, 1, 0)] Wireframe_init)) = [[0, 1, 2]]
   \<and> edges (addFaces [[0, 1, 2], [0, 1, 3]]
        (addNodes [(0, 0, 0), (1, 0, 0), (0, 1, 0)] Wireframe_init)) = [(2, 0), (0, 1), (1, 2)]
   \<and> faces (addNodes [(0, 0, 0), (1, 0, 0), (0, 1, 0)] Wireframe_init) = []
   \<and> edges (addNodes [(0, 0, 0), (1, 0, 0), (0, 1, 0)] Wireframe_init) = []"
  by (simp add: addNodes_def ones_added_def Wireframe_init_def all_below_def too_large_def
      addEdges_def face_edges_def getitem_def upt_rec)

text \<open>
  C2, amended. \<open>addFaces\<close> rejects a malformed loop as a whole, loop by loop: a loop that
  contains an index greater than or equal to the current node count adds no face and no
  edge, so the call has the result it would have without that loop. A loop of the same
  call that passes the check is still stored: it is appended to the faces and its
  boundary pairs go through \<open>addEdges\<close>, so the faces after a call are the faces before
  it followed by the loops of the argument that pass, in their order. No call changes the
  nodes, and a call in which every loop contains an index that is too large returns the
  wireframe unchanged, with the same node, edge and face counts.
\<close>

theorem addFaces_rejects_per_loop:
  "(too_large w node_list \<longrightarrow>
      addFaces (node_list # face_list) w = addFaces face_list w
      \<and> addFaces [node_list] w = w)
   \<and> (\<not> too_large w node_list \<longrightarrow>
      addFaces [node_list] w
        = addEdges (face_edges node_list) (w\<lparr>faces := faces w @ [node_list]\<rparr>)
      \<and> addFaces (node_list # face_list) w
        = addFaces face_list
            (addEdges (face_edges node_list) (w\<lparr>faces := faces w @ [node_list]\<rparr>)))
   \<and> addFaces face_list w = addFaces (filter (\<lambda>l. \<not> too_large w l) face_list) w
   \<and> faces (addFaces face_list w) = faces w @ filter (\<lambda>l. \<not> too_large w l) face_list
   \<and> nodes (addFaces face_list w) = nodes w
   \<and> (list_all (too_large w) face_list \<longrightarrow>
        addFaces face_list w = w
        \<and> length (nodes (addFaces face_list w)) = length (nodes w)
        \<and> length (edges (addFaces face_list w)) = length (edges w)
        \<and> length (faces (addFaces face_list w)) = length (faces w))"
proof -
  have passes: "(\<lambda>l. \<not> too_large w l) = all_below w"
    by (rule ext) (simp add: too_large_iff)
  have dropped: "addFaces (node_list # face_list) w = addFaces face_list w
      \<and> addFaces [node_list] w = w" if "too_large w node_list"
    using that by (simp add: too_large_iff)
  have stored: "addFaces [node_list] w
        = addEdges (face_edges node_list) (w\<lparr>faces := faces w @ [node_list]\<rparr>)
      \<and> addFaces (node_list # face_list) w
        = addFaces face_list
            (addEdges (face_edges node_list) (w\<lparr>faces := faces w @ [node_list]\<rparr>))"
    if "\<not> too_large w node_list"
    using that by (simp add: too_large_iff)
  have filtered: "addFaces face_list w = addFaces (filter (\<lambda>l. \<not> too_large w l) face_list) w"
    using addFaces_filter [of face_list w] by (simp add: passes)
  have kept: "faces (addFaces face_list w) = faces w @ filter (\<lambda>l. \<not> too_large w l) face_list"
    by (simp add: addFaces_faces passes)
  have none: "addFaces face_list w = w" if "list_all (too_large w) face_list"
    using that by (rule addFaces_all_rejected)
  show ?thesis
    using dropped stored filtered kept none by (simp add: addFaces_nodes)
qed

theorem addFaces_rejects_per_loop_witness:
  "too_large (addNodes [(0, 0, 0), (1, 0, 0), (0, 1, 0)] Wireframe_init) [0, 1, 3]
   \<and> \<not> too_large (addNodes [(0, 0, 0), (1, 0, 0), (0, 1, 0)] Wireframe_init) [0, 1, 2]
   \<and> list_all (too_large (addNodes [(0, 0, 0), (1, 0, 0), (0, 1, 0)] Wireframe_init))
       [[0, 1, 3], [5, 1, 2]]
   \<and> addFaces [[0, 1, 3], [0, 1, 2]] (addNodes [(0, 0, 0), (1, 0, 0), (0, 1, 0)] Wireframe_init)
       = \<lparr>nodes = [(0, 0, 0, 1), (1, 0, 0, 1), (0, 1, 0, 1)],
          edges = [(2, 0), (0, 1), (1, 2)],
          faces = [[0, 1, 2]]\<rparr>
   \<and> faces (addFaces [[0, 1, 3], [0, 1, 2], [4, 0, 1], [2, 1, 0]]
        (addNodes [(0, 0, 0), (1, 0, 0), (0, 1, 0)] Wireframe_init))
       = [[0, 1, 2], [2, 1, 0]]
   \<and> addFaces [[0, 1, 3], [5, 1, 2]] (addNodes [(0, 0, 0), (1, 0, 0), (0, 1, 0)] Wireframe_init)
       = addNodes [(0, 0, 0), (1, 0, 0), (0, 1, 0)] Wireframe_init"
proof -
  let ?w = "addNodes [(0, 0, 0), (1, 0, 0), (0, 1, 0)] Wireframe_init"
  have w: "?w = \<lparr>nodes = [(0, 0, 0, 1), (1, 0, 0, 1), (0, 1, 0, 1)], edges = [], faces = []\<rparr>"
    by (simp add: addNodes_def ones_added_def Wireframe_init_def)
  have a: "too_large ?w [0, 1, 3]"
    by (simp add: too_large_def w)
  have a': "\<not> too_large ?w [0, 1, 2]"
    by (simp add: too_large_def w)
  have b: "list_all (too_large ?w) [[0, 1, 3], [5, 1, 2]]"
    by (simp add: too_large_def w)
  have drop: "addFaces [[0, 1, 3], [0, 1, 2]] ?w = addFaces [[0, 1, 2]] ?w"
    using addFaces_rejects_per_loop [of ?w "[0, 1, 3]" "[[0, 1, 2]]"] a by blast
  have store: "addFaces [[0, 1, 2]] ?w
      = addEdges (face_edges [0, 1, 2]) (?w\<lparr>faces := faces ?w @ [[0, 1, 2]]\<rparr>)"
    using addFaces_rejects_per_loop [of ?w "[0, 1, 2]" "[]"] a' by blast
  have one: "addFaces [[0, 1, 3], [0, 1, 2]] ?w
      = \<lparr>nodes = [(0, 0, 0, 1), (1, 0, 0, 1), (0, 1, 0, 1)],
         edges = [(2, 0), (0, 1), (1, 2)],
         faces = [[0, 1, 2]]\<rparr>"
    unfolding drop store
    by (simp add: w addEdges_def face_edges_def getitem_def upt_rec)
  have "faces (addFaces [[0, 1, 3], [0, 1, 2], [4, 0, 1], [2, 1, 0]] ?w)
      = faces ?w @ filter (\<lambda>l. \<not> too_large ?w l) [[0, 1, 3], [0, 1, 2], [4, 0, 1], [2, 1, 0]]"
    using addFaces_rejects_per_loop [of ?w _ "[[0, 1, 3], [0, 1, 2], [4, 0, 1], [2, 1, 0]]"]
    by blast
  then have many: "faces (addFaces [[0, 1, 3], [0, 1, 2], [4, 0, 1], [2, 1, 0]] ?w)
      = [[0, 1, 2], [2, 1, 0]]"
    by (simp add: too_large_def w)
  have none: "addFaces [[0, 1, 3], [5, 1, 2]] ?w = ?w"
    using addFaces_rejects_per_loop [of ?w _ "[[0, 1, 3], [5, 1, 2]]"] b by blast
  show ?thesis
    using a a' b one many none by simp
qed

subsection \<open>Face indices and the node sequence\<close>

text \<open>
  What the guard of \<open>addFaces\<close> does establish: once every stored face is below the node
  count, it stays so under the three append operations and under every transform call.
\<close>

lemma all_below_mono:
  "length (nodes w) \<le> length (nodes w') \<Longrightarrow> all_below w l \<Longrightarrow> all_below w' l"
  by (induction l) (auto simp add: all_below_def)

lemma faces_below_addNodes:
  "list_all (all_below w) (faces w) \<Longrightarrow>
   list_all (all_below (addNodes node_array w)) (faces (addNodes node_array w))"
proof -
  assume a: "list_all (all_below w) (faces w)"
  have "length (nodes w) \<le> length (nodes (addNodes node_array w))"
    by (simp add: addNodes_def)
  then have "\<And>l. all_below w l \<Longrightarrow> all_below (addNodes node_array w) l"
    by (rule all_below_mono)
  with a have "list_all (all_below (addNodes node_array w)) (faces w)"
    by (auto simp add: list_all_iff)
  then show ?thesis by (simp add: addNodes_def)
qed

lemma faces_below_addFaces:
  "list_all (all_below w) (faces w) \<Longrightarrow>
   list_all (all_below (addFaces face_list w)) (faces (addFaces face_list w))"
proof -
  assume a: "list_all (all_below w) (faces w)"
  have "all_below (addFaces face_list w) = all_below w"
    by (rule all_below_cong) (simp add: addFaces_nodes)
  with a show ?thesis
    by (auto simp add: addFaces_faces list_all_iff)
qed

text \<open>
  C5. The invariant claimed is that every index stored in a face is a valid index into
  the node sequence, because \<open>addFaces\<close> rejects every loop with an invalid index. The
  guard compares each index with the node count from above only. On a wireframe of three
  nodes the loop (0, 1, -7) passes the guard and is stored with its three edges, although
  \<open>self.nodes[-7]\<close> raises IndexError there.
\<close>

theorem addFaces_accepts_index_below_range:
  "faces (addFaces [[0, 1, - 7]] (addNodes [(0, 0, 0), (1, 0, 0), (0, 1, 0)] Wireframe_init))
     = [[0, 1, - 7]]
   \<and> edges (addFaces [[0, 1, - 7]] (addNodes [(0, 0, 0), (1, 0, 0), (0, 1, 0)] Wireframe_init))
     = [(- 7, 0), (0, 1), (1, - 7)]
   \<and> length (nodes (addFaces [[0, 1, - 7]]
        (addNodes [(0, 0, 0), (1, 0, 0), (0, 1, 0)] Wireframe_init))) = 3
   \<and> \<not> valid_index (addFaces [[0, 1, - 7]]
        (addNodes [(0, 0, 0), (1, 0, 0), (0, 1, 0)] Wireframe_init)) (- 7)"
  by (simp add: addNodes_def ones_added_def Wireframe_init_def all_below_def valid_index_def
      addEdges_def face_edges_def getitem_def upt_rec)

subsection \<open>The homogeneous component\<close>

lemma apply_call64_matrix: "apply_call64 u c rows = np_dot64 u rows (call_matrix64 u c)"
  by (cases c)
    (simp_all add: transform64_def translate64_def scale64_def rotateX64_def rotateY64_def
      rotateZ64_def)

lemma vec_mat64_fourth:
  assumes "exact_zero_one u"
    and "last_column64 M = (Fin 0, Fin 0, Fin 0, Fin 1)"
    and "vec_mat64 u (Fin x, Fin y, Fin z, Fin 1) M = (x', y', z', h')"
  shows "h' = Fin 1"
  using assms by (cases M rule: last_column64.cases) (auto simp add: exact_zero_one_def)

lemma np_dot64_homogeneous:
  assumes u: "exact_zero_one u" and M: "last_column64 M = (Fin 0, Fin 0, Fin 0, Fin 1)"
  shows "homogeneous64 rows \<Longrightarrow> finite_xyz rows \<Longrightarrow> homogeneous64 (np_dot64 u rows M)"
proof (induction rows)
  case Nil
  show ?case by (simp add: np_dot64_def homogeneous64_def)
next
  case (Cons v rows)
  obtain a b c h where v: "v = (a, b, c, h)"
    by (cases v) auto
  have h: "h = Fin 1"
    using Cons.prems(1) by (simp add: homogeneous64_def v)
  obtain x y z where xyz: "a = Fin x" "b = Fin y" "c = Fin z"
    using Cons.prems(2) by (cases a; cases b; cases c) (auto simp add: finite_xyz_def v)
  obtain x' y' z' h' where r: "vec_mat64 u (Fin x, Fin y, Fin z, Fin 1) M = (x', y', z', h')"
    by (cases "vec_mat64 u (Fin x, Fin y, Fin z, Fin 1) M") auto
  have "h' = Fin 1"
    using u M r by (rule vec_mat64_fourth)
  moreover have "homogeneous64 (np_dot64 u rows M)"
    using Cons by (simp add: homogeneous64_def finite_xyz_def)
  ultimately show ?case
    using r by (simp add: np_dot64_def homogeneous64_def v h xyz)
qed

lemma engine_last_column64: "built_by_engine c \<Longrightarrow> affine64 u c"
  by (cases c)
    (simp_all add: affine64_def translate_matrix64_def scale_matrix64_def rotateX_matrix64_def
      rotateY_matrix64_def rotateZ_matrix64_def Let_def)

lemma apply_call64_homogeneous:
  "exact_zero_one u \<Longrightarrow> affine64 u c \<Longrightarrow> homogeneous64 rows \<Longrightarrow> finite_xyz rows \<Longrightarrow>
   homogeneous64 (apply_call64 u c rows)"
  by (simp add: apply_call64_matrix affine64_def np_dot64_homogeneous)

lemma apply_calls64_homogeneous:
  assumes u: "exact_zero_one u"
  shows "list_all (affine64 u) calls \<Longrightarrow> finite_before_each u calls rows \<Longrightarrow>
    homogeneous64 rows \<Longrightarrow> homogeneous64 (apply_calls64 u calls rows)"
  unfolding apply_calls64_def
proof (induction calls arbitrary: rows)
  case Nil
  then show ?case by simp
next
  case (Cons c calls)
  have "homogeneous64 (apply_call64 u c rows)"
    using u Cons.prems by (intro apply_call64_homogeneous) simp_all
  then show ?case
    using Cons by simp
qed

lemma addNodes64_homogeneous:
  "homogeneous64 rows \<Longrightarrow> homogeneous64 (addNodes64 node_array rows)"
  by (auto simp add: homogeneous64_def addNodes64_def list_all_iff)

text \<open>
  The two embeddings of the transform methods agree wherever float64 computes exactly.
\<close>

lemma vec_mat64_exact: "vec_mat64 exact_ops (fin4 v) (fin_matrix M) = fin4 (vec_mat v M)"
  by (cases "(v, M)" rule: vec_mat.cases) (simp add: exact_ops_def)

lemma call_matrix64_exact: "call_matrix64 exact_ops (fin_call c) = fin_matrix (call_matrix c)"
  by (cases c)
    (simp_all add: exact_ops_def translate_matrix64_def scale_matrix64_def rotateX_matrix64_def
      rotateY_matrix64_def rotateZ_matrix64_def fsub_def Let_def)

lemma apply_call64_exact:
  "apply_call64 exact_ops (fin_call c) (map fin4 (nodes w)) = map fin4 (nodes (apply_call c w))"
  by (simp add: apply_call64_matrix call_matrix64_exact np_dot64_def vec_mat64_exact
      apply_call_transform transform_def np_dot_def comp_def)

lemma exact_zero_one_overflow_only: "exact_zero_one overflow_only"
  by (simp add: exact_zero_one_def overflow_only_def)

text \<open>
  Why the coordinates have to be finite: doubling the coordinate \<open>2 ^ 1023\<close> overflows to
  infinity, and the next call multiplies that infinity with the zeros of the last
  column, which is NaN. The matrices are the module's own.
\<close>

lemma overflow_then_nan:
  "scale64 overflow_only (Fin 2) (Fin 0) (Fin 0) (Fin 0)
     (addNodes64 [(Fin (2 ^ 1023), Fin 0, Fin 0)] [])
     = [(PInf, Fin 0, Fin 0, Fin 1)]
   \<and> translate64 overflow_only (Fin 0) (Fin 0) (Fin 0) [(PInf, Fin 0, Fin 0, Fin 1)]
     = [(PInf, NaN, NaN, NaN)]"
  by (simp add: scale64_def translate64_def scale_matrix64_def translate_matrix64_def
      np_dot64_def addNodes64_def overflow_only_def fsub_def)

text \<open>
  The claim C6 as written fails for \<open>transform\<close>: the method multiplies with whatever
  matrix the caller passes, and a matrix whose last column is not (0, 0, 0, 1) changes
  the fourth component.
\<close>

theorem transform_changes_fourth_component:
  "homogeneous (addNodes [(1, 2, 3)] Wireframe_init)
   \<and> nodes (transform ((1, 0, 0, 0), (0, 1, 0, 0), (0, 0, 1, 0), (0, 0, 0, 2))
        (addNodes [(1, 2, 3)] Wireframe_init)) = [(1, 2, 3, 2)]
   \<and> \<not> homogeneous (transform ((1, 0, 0, 0), (0, 1, 0, 0), (0, 0, 1, 0), (0, 0, 0, 2))
        (addNodes [(1, 2, 3)] Wireframe_init))"
  by (simp add: homogeneous_def addNodes_def ones_added_def Wireframe_init_def transform_def
      np_dot_def)

text \<open>
  C6, amended. As long as the x, y and z coordinates of the stored nodes are finite
  floats (no infinity, no NaN) before a call, the fourth component of every stored node
  is exactly 1 after it, if it was before: after \<open>translate\<close>, \<open>scale\<close>, \<open>rotateX\<close>,
  \<open>rotateY\<close> and \<open>rotateZ\<close>, because every matrix these five methods build has last
  column (0, 0, 0, 1), and after \<open>transform(M)\<close> when the last column of \<open>M\<close> is
  (0, 0, 0, 1); hence after every sequence of such calls before each of which the
  coordinates are finite. \<open>addNodes\<close> appends each point with the component set to 1 and
  keeps the component of the nodes stored before. This holds for every rounding that
  stores 0 and 1 as they are.
\<close>

theorem fourth_component_exact_while_finite:
  "homogeneous64 (addNodes64 node_array [])
   \<and> (homogeneous64 rows \<longrightarrow> homogeneous64 (addNodes64 node_array rows))
   \<and> (built_by_engine c \<longrightarrow>
        last_column64 (call_matrix64 u c) = (Fin 0, Fin 0, Fin 0, Fin 1))
   \<and> (exact_zero_one u \<and> homogeneous64 rows \<and> finite_xyz rows \<longrightarrow>
        homogeneous64 (translate64 u dx dy dz rows)
        \<and> homogeneous64 (scale64 u s cx cy cz rows)
        \<and> homogeneous64 (rotateX64 u py pz radians rows)
        \<and> homogeneous64 (rotateY64 u px pz radians rows)
        \<and> homogeneous64 (rotateZ64 u px py radians rows))
   \<and> (exact_zero_one u \<and> homogeneous64 rows \<and> finite_xyz rows
        \<and> last_column64 M = (Fin 0, Fin 0, Fin 0, Fin 1) \<longrightarrow>
        homogeneous64 (transform64 u M rows))
   \<and> (exact_zero_one u \<and> homogeneous64 rows \<and> list_all (affine64 u) calls
        \<and> finite_before_each u calls rows \<longrightarrow>
        homogeneous64 (apply_calls64 u calls rows))"
proof -
  have fresh: "homogeneous64 (addNodes64 node_array [])"
    by (rule addNodes64_homogeneous) (simp add: homogeneous64_def)
  have column: "last_column64 (call_matrix64 u c) = (Fin 0, Fin 0, Fin 0, Fin 1)"
    if "built_by_engine c"
    using engine_last_column64 [OF that, of u] by (simp add: affine64_def)
  have methods: "homogeneous64 (translate64 u dx dy dz rows)
        \<and> homogeneous64 (scale64 u s cx cy cz rows)
        \<and> homogeneous64 (rotateX64 u py pz radians rows)
        \<and> homogeneous64 (rotateY64 u px pz radians rows)
        \<and> homogeneous64 (rotateZ64 u px py radians rows)"
    if e: "exact_zero_one u" and h: "homogeneous64 rows" and f: "finite_xyz rows"
    using apply_call64_homogeneous [OF e engine_last_column64 h f, of "Translate64 dx dy dz"]
      apply_call64_homogeneous [OF e engine_last_column64 h f, of "Scale64 s cx cy cz"]
      apply_call64_homogeneous [OF e engine_last_column64 h f, of "RotateX64 py pz radians"]
      apply_call64_homogeneous [OF e engine_last_column64 h f, of "RotateY64 px pz radians"]
      apply_call64_homogeneous [OF e engine_last_column64 h f, of "RotateZ64 px py radians"]
    by simp
  have generic: "homogeneous64 (transform64 u M rows)"
    if "exact_zero_one u" and "homogeneous64 rows" and "finite_xyz rows"
      and "last_column64 M = (Fin 0, Fin 0, Fin 0, Fin 1)"
    using that by (simp add: transform64_def np_dot64_homogeneous)
  have sequence: "homogeneous64 (apply_calls64 u calls rows)"
    if "exact_zero_one u" and "homogeneous64 rows" and "list_all (affine64 u) calls"
      and "finite_before_each u calls rows"
    using that by (simp add: apply_calls64_homogeneous)
  show ?thesis
    using fresh addNodes64_homogeneous [of rows node_array] column methods generic sequence
    by blast
qed

theorem fourth_component_exact_while_finite_witness:
  "exact_zero_one overflow_only
   \<and> homogeneous64 (addNodes64 [(Fin 1, Fin 2, Fin 3)] [])
   \<and> finite_xyz (addNodes64 [(Fin 1, Fin 2, Fin 3)] [])
   \<and> built_by_engine (Scale64 (Fin 2) (Fin 1) (Fin 1) (Fin 1))
   \<and> list_all (affine64 overflow_only)
       [Scale64 (Fin 2) (Fin 1) (Fin 1) (Fin 1), Translate64 (Fin 5) (Fin 0) (Fin 0),
        RotateZ64 (Fin 0) (Fin 0) (Fin 0)]
   \<and> finite_before_each overflow_only
       [Scale64 (Fin 2) (Fin 1) (Fin 1) (Fin 1), Translate64 (Fin 5) (Fin 0) (Fin 0),
        RotateZ64 (Fin 0) (Fin 0) (Fin 0)]
       (addNodes64 [(Fin 1, Fin 2, Fin 3)] [])
   \<and> homogeneous64 (scale64 overflow_only (Fin 2) (Fin 1) (Fin 1) (Fin 1)
        (addNodes64 [(Fin 1, Fin 2, Fin 3)] []))
   \<and> homogeneous64 (apply_calls64 overflow_only
       [Scale64 (Fin 2) (Fin 1) (Fin 1) (Fin 1), Translate64 (Fin 5) (Fin 0) (Fin 0),
        RotateZ64 (Fin 0) (Fin 0) (Fin 0)]
       (addNodes64 [(Fin 1, Fin 2, Fin 3)] []))
   \<and> apply_calls64 overflow_only
       [Scale64 (Fin 2) (Fin 1) (Fin 1) (Fin 1), Translate64 (Fin 5) (Fin 0) (Fin 0),
        RotateZ64 (Fin 0) (Fin 0) (Fin 0)]
       (addNodes64 [(Fin 1, Fin 2, Fin 3)] [])
     = [(Fin 6, Fin 3, Fin 5, Fin 1)]"
proof -
  let ?u = overflow_only
  let ?rows = "addNodes64 [(Fin 1, Fin 2, Fin 3)] []"
  let ?calls = "[Scale64 (Fin 2) (Fin 1) (Fin 1) (Fin 1), Translate64 (Fin 5) (Fin 0) (Fin 0),
        RotateZ64 (Fin 0) (Fin 0) (Fin 0)]"
  have e: "exact_zero_one ?u"
    by (simp add: exact_zero_one_def overflow_only_def)
  have r: "?rows = [(Fin 1, Fin 2, Fin 3, Fin 1)]"
    by (simp add: addNodes64_def)
  have h: "homogeneous64 ?rows"
    using fourth_component_exact_while_finite [of "[(Fin 1, Fin 2, Fin 3)]"] by blast
  have f: "finite_xyz ?rows"
    by (simp add: r finite_xyz_def)
  have b: "built_by_engine (Scale64 (Fin 2) (Fin 1) (Fin 1) (Fin 1))"
    by simp
  have a: "list_all (affine64 ?u) ?calls"
    by (simp add: affine64_def translate_matrix64_def scale_matrix64_def rotateZ_matrix64_def
        Let_def)
  have s1: "scale64 ?u (Fin 2) (Fin 1) (Fin 1) (Fin 1) ?rows
      = [(Fin 1, Fin 3, Fin 5, Fin 1)]"
    by (simp add: r scale64_def scale_matrix64_def np_dot64_def overflow_only_def fsub_def)
  have s2: "translate64 ?u (Fin 5) (Fin 0) (Fin 0) [(Fin 1, Fin 3, Fin 5, Fin 1)]
      = [(Fin 6, Fin 3, Fin 5, Fin 1)]"
    by (simp add: translate64_def translate_matrix64_def np_dot64_def overflow_only_def)
  have s3: "rotateZ64 ?u (Fin 0) (Fin 0) (Fin 0) [(Fin 6, Fin 3, Fin 5, Fin 1)]
      = [(Fin 6, Fin 3, Fin 5, Fin 1)]"
    by (simp add: rotateZ64_def rotateZ_matrix64_def np_dot64_def overflow_only_def fsub_def
        Let_def)
  have f': "finite_xyz [(Fin 1, Fin 3, Fin 5, Fin 1)]" "finite_xyz [(Fin 6, Fin 3, Fin 5, Fin 1)]"
    by (simp_all add: finite_xyz_def)
  have fb: "finite_before_each ?u ?calls ?rows"
    by (simp add: s1 s2 f f')
  have v: "apply_calls64 ?u ?calls ?rows = [(Fin 6, Fin 3, Fin 5, Fin 1)]"
    by (simp add: apply_calls64_def s1 s2 s3)
  have one: "homogeneous64 (scale64 ?u (Fin 2) (Fin 1) (Fin 1) (Fin 1) ?rows)"
    using fourth_component_exact_while_finite
        [of _ ?rows _ ?u _ _ _ "Fin 2" "Fin 1" "Fin 1" "Fin 1"] e h f
    by blast
  have all: "homogeneous64 (apply_calls64 ?u ?calls ?rows)"
    using fourth_component_exact_while_finite [of _ ?rows _ ?u] e h a fb
    by blast
  show ?thesis
    using e h f b a fb one all v by simp
qed

subsection \<open>Scaling about a pivot\<close>

lemma scale_row:
  "vec_mat (x, y, z, 1)
     ((s, 0, 0, 0), (0, s, 0, 0), (0, 0, s, 0), (cx * (1 - s), cy * (1 - s), cz * (1 - s), 1))
   = scaled_about s cx cy cz (x, y, z, 1)"
  by (simp add: algebra_simps)

lemma scale_rows:
  "list_all (\<lambda>(x, y, z, h). h = 1) rows \<Longrightarrow>
   np_dot rows
     ((s, 0, 0, 0), (0, s, 0, 0), (0, 0, s, 0), (cx * (1 - s), cy * (1 - s), cz * (1 - s), 1))
   = map (scaled_about s cx cy cz) rows"
proof (induction rows)
  case Nil
  show ?case by (simp add: np_dot_def)
next
  case (Cons v rows)
  obtain x y z where v: "v = (x, y, z, 1)"
    using Cons.prems by (cases v) auto
  from Cons have "np_dot rows
     ((s, 0, 0, 0), (0, s, 0, 0), (0, 0, s, 0), (cx * (1 - s), cy * (1 - s), cz * (1 - s), 1))
     = map (scaled_about s cx cy cz) rows"
    by simp
  then show ?case
    unfolding v np_dot_def using scale_row [of x y z s cx cy cz] by simp
qed

text \<open>
  C8. \<open>scale(s, cx, cy, cz)\<close> multiplies the nodes with the one matrix whose diagonal block
  is (s, s, s) and whose bottom row is (cx(1-s), cy(1-s), cz(1-s), 1). A node (x, y, z, 1)
  goes to pivot + s (node - pivot) on each axis, with fourth component 1; on a wireframe
  whose nodes all have fourth component 1 this is what happens to every node, and the
  edges and faces stay. With s = 2 and pivot (0, 0, 0) the node (1, 1, 1) goes to (2, 2, 2).
\<close>

theorem scale_about_pivot:
  "scale s cx cy cz w
     = transform ((s, 0, 0, 0), (0, s, 0, 0), (0, 0, s, 0),
         (cx * (1 - s), cy * (1 - s), cz * (1 - s), 1)) w
   \<and> vec_mat (x, y, z, 1)
       ((s, 0, 0, 0), (0, s, 0, 0), (0, 0, s, 0), (cx * (1 - s), cy * (1 - s), cz * (1 - s), 1))
     = (cx + s * (x - cx), cy + s * (y - cy), cz + s * (z - cz), 1)
   \<and> (homogeneous w \<longrightarrow>
        nodes (scale s cx cy cz w) = map (scaled_about s cx cy cz) (nodes w))
   \<and> edges (scale s cx cy cz w) = edges w
   \<and> faces (scale s cx cy cz w) = faces w
   \<and> nodes (scale 2 0 0 0 (addNodes [(1, 1, 1)] Wireframe_init)) = [(2, 2, 2, 1)]"
proof -
  have a: "scale s cx cy cz w
     = transform ((s, 0, 0, 0), (0, s, 0, 0), (0, 0, s, 0),
         (cx * (1 - s), cy * (1 - s), cz * (1 - s), 1)) w"
    by (simp add: scale_def transform_def)
  have b: "vec_mat (x, y, z, 1)
       ((s, 0, 0, 0), (0, s, 0, 0), (0, 0, s, 0), (cx * (1 - s), cy * (1 - s), cz * (1 - s), 1))
     = (cx + s * (x - cx), cy + s * (y - cy), cz + s * (z - cz), 1)"
    using scale_row [of x y z s cx cy cz] by simp
  have c: "nodes (scale s cx cy cz w) = map (scaled_about s cx cy cz) (nodes w)"
    if "homogeneous w"
    using that scale_rows [of "nodes w" s cx cy cz] by (simp add: scale_def homogeneous_def)
  have d: "edges (scale s cx cy cz w) = edges w \<and> faces (scale s cx cy cz w) = faces w"
    by (simp add: scale_def)
  have e: "nodes (scale 2 0 0 0 (addNodes [(1, 1, 1)] Wireframe_init)) = [(2, 2, 2, 1)]"
    by (simp add: scale_def addNodes_def ones_added_def Wireframe_init_def np_dot_def)
  show ?thesis
    using a b c d e by blast
qed

theorem scale_about_pivot_witness:
  "homogeneous (addNodes [(1, 1, 1), (3, 0, 5)] Wireframe_init)
   \<and> nodes (scale 2 1 0 1 (addNodes [(1, 1, 1), (3, 0, 5)] Wireframe_init))
       = [(1, 2, 1, 1), (5, 0, 9, 1)]"
proof -
  let ?w = "addNodes [(1, 1, 1), (3, 0, 5)] Wireframe_init"
  have h: "homogeneous ?w"
    by (simp add: homogeneous_def addNodes_def ones_added_def Wireframe_init_def)
  have n: "nodes ?w = [(1, 1, 1, 1), (3, 0, 5, 1)]"
    by (simp add: addNodes_def ones_added_def Wireframe_init_def)
  have "nodes (scale 2 1 0 1 ?w) = map (scaled_about 2 1 0 1) (nodes ?w)"
    using scale_about_pivot [of 2 1 0 1 ?w] h by blast
  then show ?thesis
    using h by (simp add: n)
qed

subsection \<open>Centre of a group\<close>

lemma fold_min3:
  "fold min3 vs v =
     (fold min (map fst vs) (fst v),
      fold min (map (fst \<circ> snd) vs) (fst (snd v)),
      fold min (map (snd \<circ> snd) vs) (snd (snd v)))"
proof (induction vs arbitrary: v)
  case Nil
  show ?case by simp
next
  case (Cons u vs)
  show ?case
    by (cases u; cases v) (simp add: Cons.IH)
qed

lemma fold_max3:
  "fold max3 vs v =
     (fold max (map fst vs) (fst v),
      fold max (map (fst \<circ> snd) vs) (fst (snd v)),
      fold max (map (snd \<circ> snd) vs) (snd (snd v)))"
proof (induction vs arbitrary: v)
  case Nil
  show ?case by simp
next
  case (Cons u vs)
  show ?case
    by (cases u; cases v) (simp add: Cons.IH)
qed

lemma amin_axis_minima: "points \<noteq> [] \<Longrightarrow> amin points = Inr (axis_minima points)"
  by (cases points) (simp_all add: axis_minima_def Min.set_eq_fold [symmetric] fold_min3)

lemma amax_axis_maxima: "points \<noteq> [] \<Longrightarrow> amax points = Inr (axis_maxima points)"
  by (cases points) (simp_all add: axis_maxima_def Max.set_eq_fold [symmetric] fold_max3)

lemma collect_total:
  "(\<And>x. x \<in> set xs \<Longrightarrow> f x = Inr (h x)) \<Longrightarrow> collect f xs = Inr (map h xs)"
  by (induction xs) simp_all

lemma Min_of_Mins:
  fixes A :: "'i \<Rightarrow> real set"
  assumes fin: "finite I" and ne: "I \<noteq> {}"
    and A: "\<And>i. i \<in> I \<Longrightarrow> finite (A i) \<and> A i \<noteq> {}"
  shows "Min ((\<lambda>i. Min (A i)) ` I) = Min (\<Union>i\<in>I. A i)"
proof -
  let ?M = "(\<lambda>i. Min (A i)) ` I"
  let ?U = "\<Union>i\<in>I. A i"
  have finM: "finite ?M" and neM: "?M \<noteq> {}"
    using fin ne by auto
  have "Min ?U = Min ?M"
  proof (rule Min_eqI)
    show "finite ?U"
      using fin A by auto
  next
    fix y
    assume "y \<in> ?U"
    then obtain i where i: "i \<in> I" "y \<in> A i"
      by auto
    have "Min ?M \<le> Min (A i)"
      using finM i(1) by (intro Min_le) auto
    also have "Min (A i) \<le> y"
      using A [OF i(1)] i(2) by (intro Min_le) auto
    finally show "Min ?M \<le> y" .
  next
    have "Min ?M \<in> ?M"
      using finM neM by (rule Min_in)
    then obtain i where i: "i \<in> I" "Min ?M = Min (A i)"
      by auto
    have "Min (A i) \<in> A i"
      using A [OF i(1)] by (intro Min_in) auto
    then show "Min ?M \<in> ?U"
      using i by auto
  qed
  then show ?thesis by simp
qed

lemma Max_of_Maxs:
  fixes A :: "'i \<Rightarrow> real set"
  assumes fin: "finite I" and ne: "I \<noteq> {}"
    and A: "\<And>i. i \<in> I \<Longrightarrow> finite (A i) \<and> A i \<noteq> {}"
  shows "Max ((\<lambda>i. Max (A i)) ` I) = Max (\<Union>i\<in>I. A i)"
proof -
  let ?M = "(\<lambda>i. Max (A i)) ` I"
  let ?U = "\<Union>i\<in>I. A i"
  have finM: "finite ?M" and neM: "?M \<noteq> {}"
    using fin ne by auto
  have "Max ?U = Max ?M"
  proof (rule Max_eqI)
    show "finite ?U"
      using fin A by auto
  next
    fix y
    assume "y \<in> ?U"
    then obtain i where i: "i \<in> I" "y \<in> A i"
      by auto
    have "y \<le> Max (A i)"
      using A [OF i(1)] i(2) by (intro Max_ge) auto
    also have "Max (A i) \<le> Max ?M"
      using finM i(1) by (intro Max_ge) auto
    finally show "y \<le> Max ?M" .
  next
    have "Max ?M \<in> ?M"
      using finM neM by (rule Max_in)
    then obtain i where i: "i \<in> I" "Max ?M = Max (A i)"
      by auto
    have "Max (A i) \<in> A i"
      using A [OF i(1)] by (intro Max_in) auto
    then show "Max ?M \<in> ?U"
      using i by auto
  qed
  then show ?thesis by simp
qed

lemma Min_column:
  fixes p :: "vec3 \<Rightarrow> real"
  assumes "ws \<noteq> []" and "\<And>w. w \<in> set ws \<Longrightarrow> rows w \<noteq> []"
  shows "Min (set (map (\<lambda>w. Min (set (map p (rows w)))) ws))
       = Min (set (map p (concat (map rows ws))))"
proof -
  have "Min ((\<lambda>w. Min (p ` set (rows w))) ` set ws) = Min (\<Union>w\<in>set ws. p ` set (rows w))"
    using assms by (intro Min_of_Mins) auto
  then show ?thesis
    by (simp add: image_UN)
qed

lemma Max_column:
  fixes p :: "vec3 \<Rightarrow> real"
  assumes "ws \<noteq> []" and "\<And>w. w \<in> set ws \<Longrightarrow> rows w \<noteq> []"
  shows "Max (set (map (\<lambda>w. Max (set (map p (rows w)))) ws))
       = Max (set (map p (concat (map rows ws))))"
proof -
  have "Max ((\<lambda>w. Max (p ` set (rows w))) ` set ws) = Max (\<Union>w\<in>set ws. p ` set (rows w))"
    using assms by (intro Max_of_Maxs) auto
  then show ?thesis
    by (simp add: image_UN)
qed

lemma axis_minima_concat:
  assumes "ws \<noteq> []" and "\<And>w. w \<in> set ws \<Longrightarrow> rows w \<noteq> []"
  shows "axis_minima (map (\<lambda>w. axis_minima (rows w)) ws) = axis_minima (concat (map rows ws))"
  using Min_column [where p = fst, OF assms] Min_column [where p = "fst \<circ> snd", OF assms]
    Min_column [where p = "snd \<circ> snd", OF assms]
  by (simp add: axis_minima_def comp_def)

lemma axis_maxima_concat:
  assumes "ws \<noteq> []" and "\<And>w. w \<in> set ws \<Longrightarrow> rows w \<noteq> []"
  shows "axis_maxima (map (\<lambda>w. axis_maxima (rows w)) ws) = axis_maxima (concat (map rows ws))"
  using Max_column [where p = fst, OF assms] Max_column [where p = "fst \<circ> snd", OF assms]
    Max_column [where p = "snd \<circ> snd", OF assms]
  by (simp add: axis_maxima_def comp_def)

lemma xyz_concat: "xyz (concat (map nodes ws)) = concat (map (\<lambda>w. xyz (nodes w)) ws)"
  by (simp add: xyz_def map_concat comp_def)

lemma group_findCentre_members:
  assumes "populated g"
  shows "group_findCentre g =
     Inr (half_sum (axis_minima (map (\<lambda>w. axis_minima (xyz (nodes w))) (values_of g)))
                   (axis_maxima (map (\<lambda>w. axis_maxima (xyz (nodes w))) (values_of g))))"
proof -
  have ne: "values_of g \<noteq> []"
    using assms by (simp add: populated_def values_of_def)
  have rows: "xyz (nodes w) \<noteq> []" if "w \<in> set (values_of g)" for w
    using assms that by (auto simp add: populated_def list_all_iff xyz_def)
  have lo: "collect (\<lambda>w. amin (xyz (nodes w))) (values_of g)
      = Inr (map (\<lambda>w. axis_minima (xyz (nodes w))) (values_of g))"
    by (rule collect_total) (simp add: amin_axis_minima rows)
  have hi: "collect (\<lambda>w. amax (xyz (nodes w))) (values_of g)
      = Inr (map (\<lambda>w. axis_maxima (xyz (nodes w))) (values_of g))"
    by (rule collect_total) (simp add: amax_axis_maxima rows)
  show ?thesis
    using ne by (simp add: group_findCentre_def lo hi amin_axis_minima amax_axis_maxima)
qed

lemma group_findCentre_box:
  assumes "populated g"
  shows "group_findCentre g = Inr (bounding_box_centre (xyz (nodes (union_buffer g))))"
proof -
  have ne: "values_of g \<noteq> []"
    using assms by (simp add: populated_def values_of_def)
  have rows: "xyz (nodes w) \<noteq> []" if "w \<in> set (values_of g)" for w
    using assms that by (auto simp add: populated_def list_all_iff xyz_def)
  show ?thesis
    using axis_minima_concat [of "values_of g" "\<lambda>w. xyz (nodes w)", OF ne rows]
      axis_maxima_concat [of "values_of g" "\<lambda>w. xyz (nodes w)", OF ne rows]
    by (simp add: group_findCentre_members [OF assms] bounding_box_centre_def union_buffer_def
        xyz_concat)
qed

lemma findCentre_box:
  "nodes w \<noteq> [] \<Longrightarrow> findCentre w = Inr (bounding_box_centre (xyz (nodes w)))"
proof -
  assume "nodes w \<noteq> []"
  then have "xyz (nodes w) \<noteq> []"
    by (simp add: xyz_def)
  then show ?thesis
    by (simp add: findCentre_def amin_axis_minima amax_axis_maxima bounding_box_centre_def)
qed

lemma union_buffer_nonempty: "populated g \<Longrightarrow> nodes (union_buffer g) \<noteq> []"
  by (cases "wireframes g")
    (auto simp add: populated_def union_buffer_def values_of_def)

text \<open>
  The claim C4 as written fails on the group without members: all of its (no) members
  have a node, and \<open>findCentre\<close> raises instead of returning a point.
\<close>

theorem group_findCentre_empty_group_raises:
  "list_all (\<lambda>wireframe. nodes wireframe \<noteq> []) (values_of WireframeGroup_init)
   \<and> group_findCentre WireframeGroup_init = Inl ValueError"
  by (simp add: WireframeGroup_init_def values_of_def group_findCentre_def)

text \<open>
  C4, amended. For every group with at least one member whose members each have at least
  one node, \<open>findCentre\<close> returns on each axis 0.5 (min + max), where min is the minimum
  of the members' minima on that axis and max the maximum of the members' maxima. This is
  the centre of the bounding box of all members' nodes taken as one buffer, and what
  \<open>Wireframe.findCentre\<close> returns on that buffer. The group of the two wireframes with
  nodes (0,0,0), (1,1,1) and (2,2,2), (3,3,3) has centre (1.5, 1.5, 1.5).
\<close>

theorem group_findCentre_bounding_box:
  "(populated g \<longrightarrow>
      group_findCentre g =
        Inr (half_sum (axis_minima (map (\<lambda>w. axis_minima (xyz (nodes w))) (values_of g)))
                      (axis_maxima (map (\<lambda>w. axis_maxima (xyz (nodes w))) (values_of g))))
      \<and> group_findCentre g = Inr (bounding_box_centre (xyz (nodes (union_buffer g))))
      \<and> group_findCentre g = findCentre (union_buffer g))
   \<and> group_findCentre
       (addWireframe ''b'' (addNodes [(2, 2, 2), (3, 3, 3)] Wireframe_init)
         (addWireframe ''a'' (addNodes [(0, 0, 0), (1, 1, 1)] Wireframe_init)
           WireframeGroup_init))
     = Inr (1.5, 1.5, 1.5)"
proof -
  have general: "group_findCentre g = findCentre (union_buffer g)" if "populated g"
    using group_findCentre_box [OF that] findCentre_box [OF union_buffer_nonempty [OF that]]
    by simp
  have scenario: "group_findCentre
       (addWireframe ''b'' (addNodes [(2, 2, 2), (3, 3, 3)] Wireframe_init)
         (addWireframe ''a'' (addNodes [(0, 0, 0), (1, 1, 1)] Wireframe_init)
           WireframeGroup_init))
     = Inr (1.5, 1.5, 1.5)"
    by (simp add: group_findCentre_def addWireframe_def WireframeGroup_init_def values_of_def
        addNodes_def ones_added_def Wireframe_init_def xyz_def)
  show ?thesis
    using group_findCentre_members [of g] group_findCentre_box [of g] general scenario
    by blast
qed

theorem group_findCentre_bounding_box_witness:
  "populated
     (addWireframe ''b'' (addNodes [(2, 2, 2), (3, 3, 3)] Wireframe_init)
       (addWireframe ''a'' (addNodes [(0, 0, 0), (1, 1, 1)] Wireframe_init)
         WireframeGroup_init))
   \<and> findCentre (union_buffer
       (addWireframe ''b'' (addNodes [(2, 2, 2), (3, 3, 3)] Wireframe_init)
         (addWireframe ''a'' (addNodes [(0, 0, 0), (1, 1, 1)] Wireframe_init)
           WireframeGroup_init)))
     = Inr (1.5, 1.5, 1.5)"
proof -
  let ?g = "addWireframe ''b'' (addNodes [(2, 2, 2), (3, 3, 3)] Wireframe_init)
       (addWireframe ''a'' (addNodes [(0, 0, 0), (1, 1, 1)] Wireframe_init)
         WireframeGroup_init)"
  have p: "populated ?g"
    by (simp add: populated_def addWireframe_def WireframeGroup_init_def values_of_def
        addNodes_def ones_added_def Wireframe_init_def)
  have "group_findCentre ?g = findCentre (union_buffer ?g)"
    and "group_findCentre ?g = Inr (1.5, 1.5, 1.5)"
    using group_findCentre_bounding_box [of ?g] p by blast+
  then show ?thesis
    using p by simp
qed

subsection \<open>Rotating a group about its centre\<close>

lemma broadcast_values: "values_of (broadcast call g) = map call (values_of g)"
  by (simp add: broadcast_def values_of_def comp_def case_prod_beta)

lemma broadcast_names: "map fst (wireframes (broadcast call g)) = map fst (wireframes g)"
  by (simp add: broadcast_def comp_def case_prod_beta)

text \<open>
  The claim C3 as written fails on the group without members: with the centre omitted
  each rotation asks for the centre of the group first, which raises.
\<close>

theorem group_rotate_empty_group_raises:
  "list_all (\<lambda>wireframe. nodes wireframe \<noteq> []) (values_of WireframeGroup_init)
   \<and> group_rotateX 0 None WireframeGroup_init = Inl ValueError
   \<and> group_rotateY 0 None WireframeGroup_init = Inl ValueError
   \<and> group_rotateZ 0 None WireframeGroup_init = Inl ValueError"
  by (simp add: WireframeGroup_init_def values_of_def group_findCentre_def
      group_rotateX_def group_rotateY_def group_rotateZ_def)

text \<open>
  C3, amended. For every group with at least one member whose members each have at least
  one node, \<open>rotateX\<close> (\<open>rotateY\<close>, \<open>rotateZ\<close>) with the centre omitted takes the centre
  (cx, cy, cz) of the bounding box of the whole group and calls every member's \<open>rotateX\<close>
  with (cy, cz) (\<open>rotateY\<close> with (cx, cz), \<open>rotateZ\<close> with (cx, cy)) and the angle: one
  pivot for all members, not the centre of each member. The names stay, and each member
  is replaced by the result of that one call on it.
\<close>

theorem group_rotate_shared_pivot:
  "(populated g \<longrightarrow>
      (\<exists>cx cy cz.
         group_findCentre g = Inr (cx, cy, cz)
         \<and> (cx, cy, cz) = bounding_box_centre (xyz (nodes (union_buffer g)))
         \<and> group_rotateX radians None g = Inr (broadcast (rotateX cy cz radians) g)
         \<and> group_rotateY radians None g = Inr (broadcast (rotateY cx cz radians) g)
         \<and> group_rotateZ radians None g = Inr (broadcast (rotateZ cx cy radians) g)))
   \<and> values_of (broadcast call g) = map call (values_of g)
   \<and> map fst (wireframes (broadcast call g)) = map fst (wireframes g)"
proof -
  have "\<exists>cx cy cz.
         group_findCentre g = Inr (cx, cy, cz)
         \<and> (cx, cy, cz) = bounding_box_centre (xyz (nodes (union_buffer g)))
         \<and> group_rotateX radians None g = Inr (broadcast (rotateX cy cz radians) g)
         \<and> group_rotateY radians None g = Inr (broadcast (rotateY cx cz radians) g)
         \<and> group_rotateZ radians None g = Inr (broadcast (rotateZ cx cy radians) g)"
    if p: "populated g"
  proof -
    obtain cx cy cz where c: "bounding_box_centre (xyz (nodes (union_buffer g))) = (cx, cy, cz)"
      by (cases "bounding_box_centre (xyz (nodes (union_buffer g)))") auto
    have f: "group_findCentre g = Inr (cx, cy, cz)"
      using group_findCentre_box [OF p] c by simp
    show ?thesis
      using f c by (simp add: group_rotateX_def group_rotateY_def group_rotateZ_def)
  qed
  then show ?thesis
    using broadcast_values [of call g] broadcast_names [of call g] by blast
qed

theorem group_rotate_shared_pivot_witness:
  "populated
     (addWireframe ''b'' (addNodes [(2, 2, 2), (3, 3, 3)] Wireframe_init)
       (addWireframe ''a'' (addNodes [(0, 0, 0), (1, 1, 1)] Wireframe_init)
         WireframeGroup_init))
   \<and> group_rotateX pi None
       (addWireframe ''b'' (addNodes [(2, 2, 2), (3, 3, 3)] Wireframe_init)
         (addWireframe ''a'' (addNodes [(0, 0, 0), (1, 1, 1)] Wireframe_init)
           WireframeGroup_init))
     = Inr (broadcast (rotateX 1.5 1.5 pi)
         (addWireframe ''b'' (addNodes [(2, 2, 2), (3, 3, 3)] Wireframe_init)
           (addWireframe ''a'' (addNodes [(0, 0, 0), (1, 1, 1)] Wireframe_init)
             WireframeGroup_init)))
   \<and> map nodes (values_of (broadcast (rotateX 1.5 1.5 pi)
         (addWireframe ''b'' (addNodes [(2, 2, 2), (3, 3, 3)] Wireframe_init)
           (addWireframe ''a'' (addNodes [(0, 0, 0), (1, 1, 1)] Wireframe_init)
             WireframeGroup_init))))
     = [[(0, 3, 3, 1), (1, 2, 2, 1)], [(2, 1, 1, 1), (3, 0, 0, 1)]]"
proof -
  let ?g = "addWireframe ''b'' (addNodes [(2, 2, 2), (3, 3, 3)] Wireframe_init)
       (addWireframe ''a'' (addNodes [(0, 0, 0), (1, 1, 1)] Wireframe_init)
         WireframeGroup_init)"
  have p: "populated ?g"
    by (simp add: populated_def addWireframe_def WireframeGroup_init_def values_of_def
        addNodes_def ones_added_def Wireframe_init_def)
  have c: "group_findCentre ?g = Inr (1.5, 1.5, 1.5)"
    by (simp add: group_findCentre_def addWireframe_def WireframeGroup_init_def values_of_def
        addNodes_def ones_added_def Wireframe_init_def xyz_def)
  obtain cx cy cz where r: "group_findCentre ?g = Inr (cx, cy, cz)"
      "group_rotateX pi None ?g = Inr (broadcast (rotateX cy cz pi) ?g)"
    using group_rotate_shared_pivot [of ?g pi] p by blast
  from r(1) c have "cy = 1.5" and "cz = 1.5"
    by simp_all
  with r(2) have x: "group_rotateX pi None ?g = Inr (broadcast (rotateX 1.5 1.5 pi) ?g)"
    by simp
  have v: "map nodes (values_of (broadcast (rotateX 1.5 1.5 pi) ?g))
     = [[(0, 3, 3, 1), (1, 2, 2, 1)], [(2, 1, 1, 1), (3, 0, 0, 1)]]"
    by (simp add: broadcast_def addWireframe_def WireframeGroup_init_def values_of_def
        addNodes_def ones_added_def Wireframe_init_def rotateX_def np_dot_def)
  show ?thesis
    using p x v by simp
qed

end
